theory Spec2Isabelle
  imports Complex_Main "HOL-Library.Sublist"
begin

section \<open>The rate query tool of \<^verbatim>\<open>src/lib/ai/tools/get_rates.js\<close>\<close>

text \<open>
  The module exports one tool, \<^verbatim>\<open>getRates\<close>: a \<^verbatim>\<open>parameters\<close> schema (lines 38-49) and an
  \<^verbatim>\<open>execute\<close> function (lines 50-116) that assembles a \<^verbatim>\<open>SELECT\<close> statement from the optional
  filters, runs it on a pooled connection and returns the rows.

  What lies outside the file is not computed here but taken as it is used: the argument
  object is a JSON value; the schema constructors \<^verbatim>\<open>z.string\<close>, \<^verbatim>\<open>z.number\<close>, \<^verbatim>\<open>z.boolean\<close>,
  \<^verbatim>\<open>z.object\<close> and \<^verbatim>\<open>.optional\<close> are given the meaning the zod library documents for them;
  the \<^verbatim>\<open>Date\<close> constructor, the connection pool and the database are fields of an
  environment record, so every theorem holds for each behaviour they may have.
\<close>

subsection \<open>Values\<close>

text \<open>
  A JSON value as the agent runtime hands it to the tool. Numbers are the finite numbers
  JSON can write (\<^verbatim>\<open>NaN\<close> and the infinities have no JSON form). An object is the list of
  its properties, read with \<^const>\<open>map_of\<close>; a property that is not in the list is
  \<^verbatim>\<open>undefined\<close>, which is \<^const>\<open>None\<close> below.
\<close>

datatype json =
    JNull
  | JBool bool
  | JNum rat
  | JStr string
  | JArr "json list"
  | JObj "(string \<times> json) list"

text \<open>
  A bound parameter of the statement: the element type of the array \<^verbatim>\<open>values\<close>. A
  \<^verbatim>\<open>Date\<close> object is its time value in milliseconds, \<^const>\<open>None\<close> for the Invalid Date
  (time value \<^verbatim>\<open>NaN\<close>).
\<close>

datatype sqlval =
    VStr string
  | VNum rat
  | VDate "int option"

subsection \<open>The parameter schema (lines 38-49)\<close>

text \<open>
  A validation issue is the path of the offending property. A schema maps a possibly
  undefined value to the parsed value or to the list of issues found.
\<close>

type_synonym issue = "string list"

definition z_string :: "json option \<Rightarrow> issue list + string" where
  "z_string v = (case v of Some (JStr s) \<Rightarrow> Inr s | _ \<Rightarrow> Inl [[]])"

definition z_number :: "json option \<Rightarrow> issue list + rat" where
  "z_number v = (case v of Some (JNum n) \<Rightarrow> Inr n | _ \<Rightarrow> Inl [[]])"

definition z_boolean :: "json option \<Rightarrow> issue list + bool" where
  "z_boolean v = (case v of Some (JBool b) \<Rightarrow> Inr b | _ \<Rightarrow> Inl [[]])"

text \<open>\<^verbatim>\<open>.optional()\<close>: \<^verbatim>\<open>undefined\<close> is accepted as it is, anything else goes to the inner schema.\<close>

definition z_optional ::
  "(json option \<Rightarrow> issue list + 'a) \<Rightarrow> json option \<Rightarrow> issue list + 'a option" where
  "z_optional inner v =
     (case v of None \<Rightarrow> Inr None | Some j \<Rightarrow> map_sum id Some (inner (Some j)))"

text \<open>
  \<^verbatim>\<open>z.object\<close> parses each declared key of the shape, in the order of the shape, and gathers
  the issues of all of them, each under its key. Keys that the shape does not declare are
  never looked at: a plain \<^verbatim>\<open>z.object\<close> (neither \<^verbatim>\<open>.strict()\<close> nor \<^verbatim>\<open>.passthrough()\<close>, as in
  the source) strips them from its output.
\<close>

definition issues_of :: "issue list + 'a \<Rightarrow> issue list" where
  "issues_of r = (case r of Inl is \<Rightarrow> is | Inr _ \<Rightarrow> [])"

definition at_key ::
  "(string \<times> json) list \<Rightarrow> string \<Rightarrow> (json option \<Rightarrow> issue list + 'a) \<Rightarrow> issue list + 'a" where
  "at_key kvs k schema = map_sum (map ((#) k)) id (schema (map_of kvs k))"

fun both :: "issue list + 'a \<Rightarrow> issue list + 'b \<Rightarrow> issue list + ('a \<times> 'b)" where
  "both (Inr a) (Inr b) = Inr (a, b)"
| "both (Inl is) r = Inl (is @ issues_of r)"
| "both (Inr a) (Inl is) = Inl is"

record orderBy =
  column :: string
  ascending :: bool

record query_filter =
  fromCurrency :: "string option"
  toCurrency :: "string option"
  side :: "rat option"
  limit :: "rat option"
  startDate :: "string option"
  endDate :: "string option"
  orderBy :: "orderBy option"

text \<open>Lines 45-48: \<^verbatim>\<open>z.object({ column: z.string(), ascending: z.boolean() })\<close>.\<close>

definition z_orderBy :: "json option \<Rightarrow> issue list + orderBy" where
  "z_orderBy v =
     (case v of
        Some (JObj kvs) \<Rightarrow>
          map_sum id (\<lambda>(c, a). \<lparr>column = c, ascending = a\<rparr>)
            (both (at_key kvs ''column'' z_string) (at_key kvs ''ascending'' z_boolean))
      | _ \<Rightarrow> Inl [[]])"

text \<open>Lines 38-49: the schema \<^verbatim>\<open>parameters\<close>, applied to the argument object of a call.\<close>

definition parameters :: "json \<Rightarrow> issue list + query_filter" where
  "parameters input =
     (case input of
        JObj kvs \<Rightarrow>
          map_sum id
            (\<lambda>(fc, tc, sd, lm, st, en, ob).
               \<lparr>fromCurrency = fc, toCurrency = tc, side = sd, limit = lm,
                startDate = st, endDate = en, orderBy = ob\<rparr>)
            (both (at_key kvs ''fromCurrency'' (z_optional z_string))
            (both (at_key kvs ''toCurrency'' (z_optional z_string))
            (both (at_key kvs ''side'' (z_optional z_number))
            (both (at_key kvs ''limit'' (z_optional z_number))
            (both (at_key kvs ''startDate'' (z_optional z_string))
            (both (at_key kvs ''endDate'' (z_optional z_string))
                  (at_key kvs ''orderBy'' (z_optional z_orderBy))))))))
      | _ \<Rightarrow> Inl [[]])"

subsection \<open>Building the statement (lines 55-106)\<close>

text \<open>
  The template literals print \<^verbatim>\<open>paramCount\<close>, a positive whole number, in decimal.
\<close>

definition digit_char :: "nat \<Rightarrow> char" where
  "digit_char d = ''0123456789'' ! (d mod 10)"

fun show_nat :: "nat \<Rightarrow> string" where
  "show_nat n = (if n < 10 then [digit_char n] else show_nat (n div 10) @ [digit_char n])"

declare show_nat.simps [simp del]

text \<open>\<^verbatim>\<open>Array.prototype.join\<close> on an array of strings.\<close>

fun join :: "string \<Rightarrow> string list \<Rightarrow> string" where
  "join sep [] = []"
| "join sep [x] = x"
| "join sep (x # y # ys) = x @ sep @ join sep (y # ys)"

text \<open>The three locals of lines 55-57, and the three statements each \<^verbatim>\<open>if\<close> body runs.\<close>

record qstate =
  conditions :: "string list"
  values_list :: "sqlval list"
  paramCount :: nat

definition push_condition :: "string \<Rightarrow> sqlval \<Rightarrow> qstate \<Rightarrow> qstate" where
  "push_condition lhs v s =
     \<lparr>conditions = conditions s @ [lhs @ show_nat (paramCount s)],
      values_list = values_list s @ [v],
      paramCount = paramCount s + 1\<rparr>"

text \<open>
  Lines 59-87. A string is truthy when it is defined and not empty; \<^verbatim>\<open>side\<close> is tested with
  \<^verbatim>\<open>typeof side === 'number'\<close>, which holds for every number.
\<close>

definition build_conditions :: "(string \<Rightarrow> int option) \<Rightarrow> query_filter \<Rightarrow> qstate" where
  "build_conditions newDate a =
     (let s0 = \<lparr>conditions = [], values_list = [], paramCount = 1\<rparr>;
          s1 = (case fromCurrency a of
                  Some c \<Rightarrow> if c \<noteq> [] then push_condition ''from_currency_id = $'' (VStr c) s0 else s0
                | None \<Rightarrow> s0);
          s2 = (case toCurrency a of
                  Some c \<Rightarrow> if c \<noteq> [] then push_condition ''to_currency_id = $'' (VStr c) s1 else s1
                | None \<Rightarrow> s1);
          s3 = (case side a of
                  Some n \<Rightarrow> push_condition ''side = $'' (VNum n) s2
                | None \<Rightarrow> s2);
          s4 = (case startDate a of
                  Some d \<Rightarrow> if d \<noteq> [] then push_condition ''created_at >= $'' (VDate (newDate d)) s3 else s3
                | None \<Rightarrow> s3);
          s5 = (case endDate a of
                  Some d \<Rightarrow> if d \<noteq> [] then push_condition ''created_at <= $'' (VDate (newDate d)) s4 else s4
                | None \<Rightarrow> s4)
      in s5)"

text \<open>Lines 90-92.\<close>

definition whereClause :: "string list \<Rightarrow> string" where
  "whereClause conds = (if length conds > 0 then ''WHERE '' @ join '' AND '' conds else [])"

text \<open>Lines 95-97.\<close>

definition orderByClause :: "orderBy option \<Rightarrow> string" where
  "orderByClause ob =
     (case ob of
        Some b \<Rightarrow> ''ORDER BY '' @ column b @ '' '' @ (if ascending b then ''ASC'' else ''DESC'')
      | None \<Rightarrow> ''ORDER BY created_at DESC'')"

text \<open>
  Lines 100-105: the template literal, with its line breaks and the eight (at the end six)
  spaces of indentation the source file has.
\<close>

definition nl :: string where
  "nl = [CHR 0x0A]"

definition query_text :: "string \<Rightarrow> string \<Rightarrow> nat \<Rightarrow> string" where
  "query_text wc oc pc =
     nl @ ''        SELECT * FROM exchange_rates '' @
     nl @ ''        '' @ wc @ '' '' @
     nl @ ''        '' @ oc @
     nl @ ''        LIMIT $'' @ show_nat pc @
     nl @ ''      ''"

text \<open>
  The statement as \<^verbatim>\<open>client.query\<close> receives it: the text and, after line 106, the array of
  values with the limit pushed last.
\<close>

definition query :: "(string \<Rightarrow> int option) \<Rightarrow> query_filter \<Rightarrow> string" where
  "query newDate a =
     (let s = build_conditions newDate a
      in query_text (whereClause (conditions s)) (orderByClause (orderBy a)) (paramCount s))"

definition query_values :: "(string \<Rightarrow> int option) \<Rightarrow> query_filter \<Rightarrow> rat \<Rightarrow> sqlval list" where
  "query_values newDate a lmt = values_list (build_conditions newDate a) @ [VNum lmt]"

subsection \<open>Running the statement (lines 50-116)\<close>

text \<open>
  What the function does to the outside, in the order it does it. \<^verbatim>\<open>'e\<close> is whatever the
  database client throws, \<^verbatim>\<open>'r\<close> a row of the result.
\<close>

datatype 'e event =
    ConsoleLog query_filter
  | PoolConnect
  | ClientQuery string "sqlval list"
  | ConsoleError 'e
  | ClientRelease

record ('e, 'r) env =
  newDate :: "string \<Rightarrow> int option"
  poolConnect :: "'e option"
  clientQuery :: "string \<Rightarrow> sqlval list \<Rightarrow> 'e + 'r list"

text \<open>Line 50: the default of the destructuring pattern, \<^verbatim>\<open>limit = 100\<close>.\<close>

definition default_limit :: "query_filter \<Rightarrow> rat" where
  "default_limit a = (case limit a of None \<Rightarrow> 100 | Some l \<Rightarrow> l)"

text \<open>
  Lines 50-116. \<^verbatim>\<open>pool.connect()\<close> stands before the \<^verbatim>\<open>try\<close>: when it throws (\<^const>\<open>poolConnect\<close>
  is \<^const>\<open>Some\<close> error) neither \<^verbatim>\<open>catch\<close> nor \<^verbatim>\<open>finally\<close> runs. Inside the \<^verbatim>\<open>try\<close> only
  \<^verbatim>\<open>client.query\<close> can throw.
\<close>

definition execute :: "('e, 'r) env \<Rightarrow> query_filter \<Rightarrow> 'e event list \<times> ('e + 'r list)" where
  "execute env a =
     (let lmt = default_limit a;
          started = [ConsoleLog (a\<lparr>limit := Some lmt\<rparr>), PoolConnect]
      in case poolConnect env of
           Some e \<Rightarrow> (started, Inl e)
         | None \<Rightarrow>
             (let q = query (newDate env) a;
                  vs = query_values (newDate env) a lmt
              in case clientQuery env q vs of
                   Inr rows \<Rightarrow> (started @ [ClientQuery q vs, ClientRelease], Inr rows)
                 | Inl e \<Rightarrow> (started @ [ClientQuery q vs, ConsoleError e, ClientRelease], Inl e)))"

text \<open>
  A call of the tool by the agent runtime: the argument object is parsed with
  \<^const>\<open>parameters\<close>, and \<^const>\<open>execute\<close> runs on the parsed value only. A validation
  failure (\<^const>\<open>Inl\<close>) therefore has no trace of events at all.
\<close>

definition call_tool ::
  "('e, 'r) env \<Rightarrow> json \<Rightarrow> issue list + ('e event list \<times> ('e + 'r list))" where
  "call_tool env input = map_sum id (execute env) (parameters input)"

subsection \<open>The specification's reading of the construction\<close>

text \<open>
  The five filters in the order the specification lists them, each with the text of its
  predicate up to the placeholder and the value it binds. A string filter takes part when
  it is defined and not empty, \<^verbatim>\<open>side\<close> when it is defined.
\<close>

definition nonempty :: "string option \<Rightarrow> string option" where
  "nonempty x = (case x of Some s \<Rightarrow> if s \<noteq> [] then Some s else None | None \<Rightarrow> None)"

definition entry :: "string \<Rightarrow> sqlval option \<Rightarrow> (string \<times> sqlval) list" where
  "entry lhs v = (case v of Some x \<Rightarrow> [(lhs, x)] | None \<Rightarrow> [])"

definition selected :: "(string \<Rightarrow> int option) \<Rightarrow> query_filter \<Rightarrow> (string \<times> sqlval) list" where
  "selected nd a =
     entry ''from_currency_id = $'' (map_option VStr (nonempty (fromCurrency a))) @
     entry ''to_currency_id = $'' (map_option VStr (nonempty (toCurrency a))) @
     entry ''side = $'' (map_option VNum (side a)) @
     entry ''created_at >= $'' (map_option (\<lambda>d. VDate (nd d)) (nonempty (startDate a))) @
     entry ''created_at <= $'' (map_option (\<lambda>d. VDate (nd d)) (nonempty (endDate a)))"

text \<open>Placeholders numbered consecutively from \<open>n\<close>.\<close>

fun numbered :: "nat \<Rightarrow> string list \<Rightarrow> string list" where
  "numbered n [] = []"
| "numbered n (p # ps) = (p @ show_nat n) # numbered (n + 1) ps"

text \<open>
  Two ways of counting the filters of a call: those that are present in the argument
  object, and those that are present and, if strings, not empty.
\<close>

definition present_count :: "query_filter \<Rightarrow> nat" where
  "present_count a =
     length (filter (\<lambda>x. x \<noteq> None) [fromCurrency a, toCurrency a, startDate a, endDate a]) +
     (case side a of Some _ \<Rightarrow> 1 | None \<Rightarrow> 0)"

definition effective_count :: "query_filter \<Rightarrow> nat" where
  "effective_count a =
     length (filter (\<lambda>x. nonempty x \<noteq> None) [fromCurrency a, toCurrency a, startDate a, endDate a]) +
     (case side a of Some _ \<Rightarrow> 1 | None \<Rightarrow> 0)"

subsection \<open>The declared shape as a predicate\<close>

text \<open>
  The shape of lines 38-49 read as types: a declared key is absent or holds a value of its
  declared type; \<^verbatim>\<open>orderBy\<close>, when present, is an object whose \<^verbatim>\<open>column\<close> is a string and
  whose \<^verbatim>\<open>ascending\<close> is a boolean.
\<close>

definition optional_of :: "(json \<Rightarrow> bool) \<Rightarrow> json option \<Rightarrow> bool" where
  "optional_of t v = (case v of None \<Rightarrow> True | Some j \<Rightarrow> t j)"

definition is_string :: "json \<Rightarrow> bool" where
  "is_string j = (case j of JStr s \<Rightarrow> True | _ \<Rightarrow> False)"

definition is_number :: "json \<Rightarrow> bool" where
  "is_number j = (case j of JNum n \<Rightarrow> True | _ \<Rightarrow> False)"

definition is_boolean :: "json \<Rightarrow> bool" where
  "is_boolean j = (case j of JBool b \<Rightarrow> True | _ \<Rightarrow> False)"

definition is_orderBy :: "json \<Rightarrow> bool" where
  "is_orderBy j =
     (case j of
        JObj kvs \<Rightarrow>
          (case map_of kvs ''column'' of Some c \<Rightarrow> is_string c | None \<Rightarrow> False) \<and>
          (case map_of kvs ''ascending'' of Some b \<Rightarrow> is_boolean b | None \<Rightarrow> False)
      | _ \<Rightarrow> False)"

definition well_typed :: "json \<Rightarrow> bool" where
  "well_typed input =
     (case input of
        JObj kvs \<Rightarrow>
          optional_of is_string (map_of kvs ''fromCurrency'') \<and>
          optional_of is_string (map_of kvs ''toCurrency'') \<and>
          optional_of is_number (map_of kvs ''side'') \<and>
          optional_of is_number (map_of kvs ''limit'') \<and>
          optional_of is_string (map_of kvs ''startDate'') \<and>
          optional_of is_string (map_of kvs ''endDate'') \<and>
          optional_of is_orderBy (map_of kvs ''orderBy'')
      | _ \<Rightarrow> False)"

definition declared_keys :: "string list" where
  "declared_keys =
     [''fromCurrency'', ''toCurrency'', ''side'', ''limit'', ''startDate'', ''endDate'', ''orderBy'']"

subsection \<open>Observing a run\<close>

text \<open>The events of a trace that are a query, and those that are a logged error.\<close>

fun is_query :: "'e event \<Rightarrow> bool" where
  "is_query (ClientQuery q vs) = True"
| "is_query _ = False"

fun is_error_log :: "'e event \<Rightarrow> bool" where
  "is_error_log (ConsoleError e) = True"
| "is_error_log _ = False"

text \<open>
  An environment in which the pool hands out a connection and the database gives the same
  answer to every statement.
\<close>

abbreviation connected_env :: "(string \<Rightarrow> int option) \<Rightarrow> 'e + 'r list \<Rightarrow> ('e, 'r) env" where
  "connected_env nd answer \<equiv> \<lparr>newDate = nd, poolConnect = None, clientQuery = \<lambda>q vs. answer\<rparr>"

subsection \<open>The example calls of the specification\<close>

text \<open>The scenario of section 8: the argument object, its parsed value and the statement text.\<close>

abbreviation usdt_ngn_args :: json where
  "usdt_ngn_args \<equiv>
     JObj [(''fromCurrency'', JStr ''USDT''), (''toCurrency'', JStr ''NGN''),
           (''side'', JNum 0), (''limit'', JNum 10)]"

abbreviation usdt_ngn_filter :: query_filter where
  "usdt_ngn_filter \<equiv>
     \<lparr>fromCurrency = Some ''USDT'', toCurrency = Some ''NGN'', side = Some 0,
      limit = Some 10, startDate = None, endDate = None, orderBy = None\<rparr>"

abbreviation usdt_ngn_text :: string where
  "usdt_ngn_text \<equiv>
     nl @ ''        SELECT * FROM exchange_rates '' @
     nl @ ''        WHERE from_currency_id = $1 AND to_currency_id = $2 AND side = $3 '' @
     nl @ ''        ORDER BY created_at DESC'' @
     nl @ ''        LIMIT $4'' @
     nl @ ''      ''"

text \<open>The call with the empty argument object.\<close>

abbreviation no_filter :: query_filter where
  "no_filter \<equiv>
     \<lparr>fromCurrency = None, toCurrency = None, side = None, limit = None,
      startDate = None, endDate = None, orderBy = None\<rparr>"

abbreviation no_filter_text :: string where
  "no_filter_text \<equiv>
     nl @ ''        SELECT * FROM exchange_rates '' @
     nl @ ''         '' @
     nl @ ''        ORDER BY created_at DESC'' @
     nl @ ''        LIMIT $1'' @
     nl @ ''      ''"

text \<open>A call with all five filters.\<close>

abbreviation five_filter :: query_filter where
  "five_filter \<equiv>
     \<lparr>fromCurrency = Some ''USDT'', toCurrency = Some ''NGN'', side = Some 1, limit = None,
      startDate = Some ''2024-01-01T00:00:00Z'', endDate = Some ''2024-02-01T00:00:00Z'',
      orderBy = None\<rparr>"

section \<open>Properties\<close>

subsection \<open>Auxiliary facts\<close>

lemma numbered_snoc: "numbered n (ps @ [p]) = numbered n ps @ [p @ show_nat (n + length ps)]"
  by (induction ps arbitrary: n) simp_all

lemma length_numbered: "length (numbered n ps) = length ps"
  by (induction ps arbitrary: n) simp_all

lemma build_conditions_selected:
  "conditions (build_conditions nd a) = numbered 1 (map fst (selected nd a))"
  "values_list (build_conditions nd a) = map snd (selected nd a)"
  "paramCount (build_conditions nd a) = length (selected nd a) + 1"
  by (simp_all add: build_conditions_def selected_def nonempty_def entry_def
        push_condition_def Let_def split: option.split)

lemma length_selected: "length (selected nd a) = effective_count a"
  by (simp add: selected_def effective_count_def nonempty_def entry_def split: option.split)

lemma show_nat_digit: "n < 10 \<Longrightarrow> show_nat n = [digit_char n]"
  by (simp add: show_nat.simps)

lemma numbered_append:
  "numbered n (ps @ qs) = numbered n ps @ numbered (n + length ps) qs"
  by (induction ps arbitrary: n) simp_all

lemma length_entries:
  "length (entry l1 (map_option f (nonempty x)) @ entry l2 (map_option g (nonempty y))) =
   length (filter (\<lambda>x. nonempty x \<noteq> None) [x, y])"
  by (simp add: entry_def split: option.split)

lemma build_conditions_orderBy [simp]:
  "build_conditions nd (a\<lparr>orderBy := ob\<rparr>) = build_conditions nd a"
  by (simp add: build_conditions_def)

lemma build_conditions_limit [simp]:
  "build_conditions nd (a\<lparr>limit := l\<rparr>) = build_conditions nd a"
  by (simp add: build_conditions_def)

lemma sublist_orderByClause: "sublist (orderByClause (orderBy a)) (query nd a)"
proof -
  let ?s = "build_conditions nd a"
  have "query nd a =
      (nl @ ''        SELECT * FROM exchange_rates '' @ nl @ ''        '' @
         whereClause (conditions ?s) @ '' '' @ nl @ ''        '') @
      orderByClause (orderBy a) @
      (nl @ ''        LIMIT $'' @ show_nat (paramCount ?s) @ nl @ ''      '')"
    by (simp add: query_def query_text_def Let_def)
  then show ?thesis
    unfolding sublist_def by blast
qed

lemma no_empty_string_selected: "VStr [] \<notin> snd ` set (selected nd a)"
  by (auto simp add: selected_def entry_def nonempty_def split: option.splits if_splits)

lemma isl_map_sum: "isl (map_sum f g r) = isl r"
  by (cases r) simp_all

lemma isl_both: "isl (both ra rb) = (isl ra \<or> isl rb)"
  by (cases ra; cases rb) simp_all

lemma both_Inr_iff: "both ra rb = Inr p \<longleftrightarrow> (\<exists>x y. ra = Inr x \<and> rb = Inr y \<and> p = (x, y))"
  by (cases ra; cases rb) auto

lemma map_sum_Inr_iff: "map_sum f g r = Inr y \<longleftrightarrow> (\<exists>x. r = Inr x \<and> y = g x)"
  by (cases r) auto

lemma at_key_Inr_iff: "at_key kvs k schema = Inr y \<longleftrightarrow> schema (map_of kvs k) = Inr y"
  by (cases "schema (map_of kvs k)") (simp_all add: at_key_def)

lemma isl_at_key: "isl (at_key kvs k schema) = isl (schema (map_of kvs k))"
  by (simp add: at_key_def isl_map_sum)

lemma isl_z_string: "isl (z_string v) = (\<not> (case v of Some j \<Rightarrow> is_string j | None \<Rightarrow> False))"
  by (simp add: z_string_def is_string_def split: option.split json.split)

lemma isl_z_boolean: "isl (z_boolean v) = (\<not> (case v of Some j \<Rightarrow> is_boolean j | None \<Rightarrow> False))"
  by (simp add: z_boolean_def is_boolean_def split: option.split json.split)

lemma isl_optional_string: "isl (z_optional z_string v) = (\<not> optional_of is_string v)"
  by (simp add: z_optional_def z_string_def optional_of_def is_string_def isl_map_sum
        split: option.split json.split)

lemma isl_optional_number: "isl (z_optional z_number v) = (\<not> optional_of is_number v)"
  by (simp add: z_optional_def z_number_def optional_of_def is_number_def isl_map_sum
        split: option.split json.split)

lemma isl_z_orderBy: "isl (z_orderBy (Some j)) = (\<not> is_orderBy j)"
  by (cases j)
     (simp_all add: z_orderBy_def is_orderBy_def isl_map_sum isl_both isl_at_key
        isl_z_string isl_z_boolean split: option.split)

lemma isl_optional_orderBy: "isl (z_optional z_orderBy v) = (\<not> optional_of is_orderBy v)"
  by (cases v) (simp_all add: z_optional_def optional_of_def isl_map_sum isl_z_orderBy)

lemma isl_parameters: "isl (parameters input) = (\<not> well_typed input)"
  by (cases input)
     (simp_all add: parameters_def well_typed_def isl_map_sum isl_both isl_at_key
        isl_optional_string isl_optional_number isl_optional_orderBy)

lemma parameters_Inr_iff:
  "parameters (JObj kvs) = Inr a \<longleftrightarrow>
     z_optional z_string (map_of kvs ''fromCurrency'') = Inr (fromCurrency a) \<and>
     z_optional z_string (map_of kvs ''toCurrency'') = Inr (toCurrency a) \<and>
     z_optional z_number (map_of kvs ''side'') = Inr (side a) \<and>
     z_optional z_number (map_of kvs ''limit'') = Inr (limit a) \<and>
     z_optional z_string (map_of kvs ''startDate'') = Inr (startDate a) \<and>
     z_optional z_string (map_of kvs ''endDate'') = Inr (endDate a) \<and>
     z_optional z_orderBy (map_of kvs ''orderBy'') = Inr (orderBy a)"
  by (cases a) (auto simp add: parameters_def map_sum_Inr_iff both_Inr_iff at_key_Inr_iff)

lemma parameters_undeclared_key:
  assumes "k \<notin> set declared_keys"
  shows "parameters (JObj ((k, v) # kvs)) = parameters (JObj kvs)"
proof -
  have other: "at_key ((k, v) # kvs) k' schema = at_key kvs k' schema"
    if "k' \<in> set declared_keys" for k' and schema :: "json option \<Rightarrow> issue list + 'a"
    using that assms by (auto simp add: at_key_def)
  show ?thesis
    by (simp add: parameters_def other declared_keys_def)
qed

lemma parameters_put_side:
  assumes "parameters (JObj kvs) = Inr a"
  shows "parameters (JObj ((''side'', JNum n) # kvs)) = Inr (a\<lparr>side := Some n\<rparr>)"
  using assms by (simp add: parameters_Inr_iff z_optional_def z_number_def)

lemma parameters_put_startDate:
  assumes "parameters (JObj kvs) = Inr a"
  shows "parameters (JObj ((''startDate'', JStr s) # kvs)) = Inr (a\<lparr>startDate := Some s\<rparr>)"
  using assms by (simp add: parameters_Inr_iff z_optional_def z_string_def)

lemma parameters_put_endDate:
  assumes "parameters (JObj kvs) = Inr a"
  shows "parameters (JObj ((''endDate'', JStr s) # kvs)) = Inr (a\<lparr>endDate := Some s\<rparr>)"
  using assms by (simp add: parameters_Inr_iff z_optional_def z_string_def)

lemma execute_connected:
  assumes "poolConnect env = None"
  shows "fst (execute env a) =
           [ConsoleLog (a\<lparr>limit := Some (default_limit a)\<rparr>), PoolConnect,
            ClientQuery (query (newDate env) a) (query_values (newDate env) a (default_limit a))] @
           (case clientQuery env (query (newDate env) a)
                   (query_values (newDate env) a (default_limit a)) of
              Inl e \<Rightarrow> [ConsoleError e, ClientRelease]
            | Inr rows \<Rightarrow> [ClientRelease])"
    and "snd (execute env a) =
           clientQuery env (query (newDate env) a) (query_values (newDate env) a (default_limit a))"
  using assms by (simp_all add: execute_def Let_def split: sum.split)

lemmas schema_defs =
  parameters_def at_key_def z_optional_def z_string_def z_number_def z_boolean_def
  z_orderBy_def issues_of_def

lemmas build_defs =
  query_def query_values_def build_conditions_def push_condition_def whereClause_def
  orderByClause_def default_limit_def

lemmas text_defs = query_text_def show_nat.simps digit_char_def

subsection \<open>Counting predicates and parameters\<close>

text \<open>
  C1, as stated, fails: the argument object \<^verbatim>\<open>{ fromCurrency: "" }\<close> passes the schema with one
  of the five filters present, and the statement built from it has no predicate.
\<close>

theorem present_count_counterexample:
  "parameters (JObj [(''fromCurrency'', JStr [])]) =
     Inr \<lparr>fromCurrency = Some [], toCurrency = None, side = None, limit = None,
          startDate = None, endDate = None, orderBy = None\<rparr> \<and>
   present_count \<lparr>fromCurrency = Some [], toCurrency = None, side = None, limit = None,
          startDate = None, endDate = None, orderBy = None\<rparr> = 1 \<and>
   length (conditions (build_conditions (\<lambda>d. None)
       \<lparr>fromCurrency = Some [], toCurrency = None, side = None, limit = None,
        startDate = None, endDate = None, orderBy = None\<rparr>)) = 0"
  by (simp add: schema_defs present_count_def build_conditions_def)

text \<open>
  C1, amended: for every argument object the schema accepts, the number of predicates is
  the number of filters among \<^verbatim>\<open>fromCurrency\<close>, \<^verbatim>\<open>toCurrency\<close>, \<^verbatim>\<open>side\<close>, \<^verbatim>\<open>startDate\<close>, \<^verbatim>\<open>endDate\<close>
  that are present and, for the four string filters, not the empty string; the array of
  values has one element more, and its last element is the limit (100 when none is given).
\<close>

theorem predicate_count_effective:
  assumes "parameters input = Inr a"
  shows "length (conditions (build_conditions nd a)) = effective_count a \<and>
         length (query_values nd a (default_limit a)) = effective_count a + 1 \<and>
         last (query_values nd a (default_limit a)) = VNum (default_limit a)"
  by (simp add: build_conditions_selected length_numbered length_selected query_values_def)

theorem predicate_count_effective_witness:
  "parameters (JObj [(''fromCurrency'', JStr ''USDT''), (''toCurrency'', JStr []),
                     (''side'', JNum 0), (''endDate'', JStr ''2024-03-01T00:00:00Z'')]) =
     Inr \<lparr>fromCurrency = Some ''USDT'', toCurrency = Some [], side = Some 0, limit = None,
          startDate = None, endDate = Some ''2024-03-01T00:00:00Z'', orderBy = None\<rparr> \<and>
   length (conditions (build_conditions (\<lambda>d. Some 1709251200000)
       \<lparr>fromCurrency = Some ''USDT'', toCurrency = Some [], side = Some 0, limit = None,
        startDate = None, endDate = Some ''2024-03-01T00:00:00Z'', orderBy = None\<rparr>)) = 3 \<and>
   length (query_values (\<lambda>d. Some 1709251200000)
       \<lparr>fromCurrency = Some ''USDT'', toCurrency = Some [], side = Some 0, limit = None,
        startDate = None, endDate = Some ''2024-03-01T00:00:00Z'', orderBy = None\<rparr> 100) = 4 \<and>
   last (query_values (\<lambda>d. Some 1709251200000)
       \<lparr>fromCurrency = Some ''USDT'', toCurrency = Some [], side = Some 0, limit = None,
        startDate = None, endDate = Some ''2024-03-01T00:00:00Z'', orderBy = None\<rparr> 100) = VNum 100"
proof -
  let ?j = "JObj [(''fromCurrency'', JStr ''USDT''), (''toCurrency'', JStr []),
                  (''side'', JNum 0), (''endDate'', JStr ''2024-03-01T00:00:00Z'')]"
  let ?a = "\<lparr>fromCurrency = Some ''USDT'', toCurrency = Some [], side = Some 0, limit = None,
             startDate = None, endDate = Some ''2024-03-01T00:00:00Z'', orderBy = None\<rparr>"
  have accepted: "parameters ?j = Inr ?a"
    by (simp add: schema_defs)
  have "effective_count ?a = 3" "default_limit ?a = 100"
    by (simp_all add: effective_count_def nonempty_def default_limit_def)
  with predicate_count_effective [OF accepted, of "\<lambda>d. Some 1709251200000"] accepted
  show ?thesis by simp
qed

subsection \<open>The two example calls\<close>

text \<open>
  C2: the argument object \<^verbatim>\<open>{ fromCurrency: "USDT", toCurrency: "NGN", side: 0, limit: 10 }\<close>
  passes the schema and gives exactly the three predicates on \<^verbatim>\<open>$1\<close>, \<^verbatim>\<open>$2\<close>, \<^verbatim>\<open>$3\<close> joined
  with \<^verbatim>\<open>AND\<close>, the default ordering, \<^verbatim>\<open>LIMIT $4\<close>, and the values \<^verbatim>\<open>["USDT", "NGN", 0, 10]\<close>;
  with a connection at hand this text and these values are what the database client
  receives.
\<close>

theorem example_usdt_ngn:
  "parameters usdt_ngn_args = Inr usdt_ngn_filter \<and>
   conditions (build_conditions nd usdt_ngn_filter) =
     [''from_currency_id = $1'', ''to_currency_id = $2'', ''side = $3''] \<and>
   whereClause (conditions (build_conditions nd usdt_ngn_filter)) =
     ''WHERE from_currency_id = $1 AND to_currency_id = $2 AND side = $3'' \<and>
   orderByClause (orderBy usdt_ngn_filter) = ''ORDER BY created_at DESC'' \<and>
   query nd usdt_ngn_filter = usdt_ngn_text \<and>
   query_values nd usdt_ngn_filter (default_limit usdt_ngn_filter) =
     [VStr ''USDT'', VStr ''NGN'', VNum 0, VNum 10] \<and>
   call_tool (env\<lparr>poolConnect := None, clientQuery := \<lambda>q vs. Inr rows\<rparr>) usdt_ngn_args =
     Inr ([ConsoleLog usdt_ngn_filter, PoolConnect,
           ClientQuery usdt_ngn_text [VStr ''USDT'', VStr ''NGN'', VNum 0, VNum 10],
           ClientRelease], Inr rows)"
proof -
  have accepted: "parameters usdt_ngn_args = Inr usdt_ngn_filter"
    by (simp add: schema_defs)
  have conds: "conditions (build_conditions nd usdt_ngn_filter) =
      [''from_currency_id = $1'', ''to_currency_id = $2'', ''side = $3'']" for nd
    by (simp add: build_defs text_defs)
  have pc: "paramCount (build_conditions nd usdt_ngn_filter) = 4" for nd
    by (simp add: build_defs)
  have vals: "query_values nd usdt_ngn_filter (default_limit usdt_ngn_filter) =
      [VStr ''USDT'', VStr ''NGN'', VNum 0, VNum 10]" for nd
    by (simp add: build_defs)
  have wc: "whereClause (conditions (build_conditions nd usdt_ngn_filter)) =
      ''WHERE from_currency_id = $1 AND to_currency_id = $2 AND side = $3''" for nd
    by (simp add: conds whereClause_def)
  have oc: "orderByClause (orderBy usdt_ngn_filter) = ''ORDER BY created_at DESC''"
    by (simp add: orderByClause_def)
  have q: "query nd usdt_ngn_filter = usdt_ngn_text" for nd
    unfolding query_def Let_def wc oc pc by (simp add: text_defs)
  have run: "call_tool (env\<lparr>poolConnect := None, clientQuery := \<lambda>q vs. Inr rows\<rparr>) usdt_ngn_args =
     Inr ([ConsoleLog usdt_ngn_filter, PoolConnect,
           ClientQuery usdt_ngn_text [VStr ''USDT'', VStr ''NGN'', VNum 0, VNum 10],
           ClientRelease], Inr rows)"
    using vals by (simp add: call_tool_def accepted execute_def q Let_def default_limit_def)
  from accepted conds wc oc q vals run show ?thesis by blast
qed

text \<open>
  C6: with every optional field omitted the statement has no \<^verbatim>\<open>WHERE\<close> clause (the word
  does not occur in its text), is ordered by \<^verbatim>\<open>created_at DESC\<close>, and binds \<^verbatim>\<open>LIMIT\<close> to
  the only parameter, \<^verbatim>\<open>$1\<close>, whose value is the default 100.
\<close>

theorem no_filters_no_where:
  "parameters (JObj []) = Inr no_filter \<and>
   conditions (build_conditions nd no_filter) = [] \<and>
   whereClause (conditions (build_conditions nd no_filter)) = [] \<and>
   orderByClause (orderBy no_filter) = ''ORDER BY created_at DESC'' \<and>
   query nd no_filter = no_filter_text \<and>
   \<not> sublist ''WHERE'' (query nd no_filter) \<and>
   query_values nd no_filter (default_limit no_filter) = [VNum 100] \<and>
   call_tool (env\<lparr>poolConnect := None, clientQuery := \<lambda>q vs. Inr rows\<rparr>) (JObj []) =
     Inr ([ConsoleLog (no_filter\<lparr>limit := Some 100\<rparr>), PoolConnect,
           ClientQuery no_filter_text [VNum 100], ClientRelease], Inr rows)"
proof -
  have accepted: "parameters (JObj []) = Inr no_filter"
    by (simp add: schema_defs)
  have conds: "conditions (build_conditions nd no_filter) = []" for nd
    by (simp add: build_defs)
  have pc: "paramCount (build_conditions nd no_filter) = 1" for nd
    by (simp add: build_defs)
  have vals: "query_values nd no_filter (default_limit no_filter) = [VNum 100]" for nd
    by (simp add: build_defs)
  have wc: "whereClause (conditions (build_conditions nd no_filter)) = []" for nd
    by (simp add: conds whereClause_def)
  have oc: "orderByClause (orderBy no_filter) = ''ORDER BY created_at DESC''"
    by (simp add: orderByClause_def)
  have q: "query nd no_filter = no_filter_text" for nd
    unfolding query_def Let_def wc oc pc by (simp add: text_defs)
  have nowhere: "\<not> sublist ''WHERE'' (query nd no_filter)" for nd
    unfolding q by (simp add: nl_def sublist_Cons_right)
  have run: "call_tool (env\<lparr>poolConnect := None, clientQuery := \<lambda>q vs. Inr rows\<rparr>) (JObj []) =
     Inr ([ConsoleLog (no_filter\<lparr>limit := Some 100\<rparr>), PoolConnect,
           ClientQuery no_filter_text [VNum 100], ClientRelease], Inr rows)"
    using vals by (simp add: call_tool_def accepted execute_def q Let_def default_limit_def)
  from accepted conds wc oc q nowhere vals run show ?thesis by blast
qed

subsection \<open>The predicates and their order\<close>

text \<open>
  C5: when \<^verbatim>\<open>side\<close> is a number, whichever it is and so also for 0 and for 1, the
  statement has the predicate \<^verbatim>\<open>side = $k\<close>, where \<open>k\<close> is one more than the number of
  currency predicates before it, and the value bound to \<^verbatim>\<open>$k\<close> is that number: the test of
  line 71 is on the type, so the falsy value 0 is kept.
\<close>

theorem side_by_type:
  assumes "side a = Some n"
  shows "(let k = length (filter (\<lambda>x. nonempty x \<noteq> None) [fromCurrency a, toCurrency a])
          in k < length (conditions (build_conditions nd a)) \<and>
             conditions (build_conditions nd a) ! k = ''side = $'' @ show_nat (k + 1) \<and>
             values_list (build_conditions nd a) ! k = VNum n)"
proof -
  define before where "before =
    entry ''from_currency_id = $'' (map_option VStr (nonempty (fromCurrency a))) @
    entry ''to_currency_id = $'' (map_option VStr (nonempty (toCurrency a)))"
  define after where "after =
    entry ''created_at >= $'' (map_option (\<lambda>d. VDate (nd d)) (nonempty (startDate a))) @
    entry ''created_at <= $'' (map_option (\<lambda>d. VDate (nd d)) (nonempty (endDate a)))"
  define k where "k = length (filter (\<lambda>x. nonempty x \<noteq> None) [fromCurrency a, toCurrency a])"
  have sel: "selected nd a = before @ (''side = $'', VNum n) # after"
    using assms by (simp add: selected_def before_def after_def entry_def)
  have len: "length before = k"
    unfolding before_def k_def by (rule length_entries)
  have conds: "conditions (build_conditions nd a) =
      numbered 1 (map fst before) @ (''side = $'' @ show_nat (k + 1)) # numbered (k + 2) (map fst after)"
    by (simp add: build_conditions_selected sel numbered_append len)
  have vals: "values_list (build_conditions nd a) = map snd before @ VNum n # map snd after"
    by (simp add: build_conditions_selected sel)
  have "length (numbered 1 (map fst before)) = k" "length (map snd before) = k"
    by (simp_all add: length_numbered len)
  with conds vals have
    "k < length (conditions (build_conditions nd a))"
    "conditions (build_conditions nd a) ! k = ''side = $'' @ show_nat (k + 1)"
    "values_list (build_conditions nd a) ! k = VNum n"
    by (simp_all add: nth_append)
  then show ?thesis
    unfolding k_def Let_def by blast
qed

theorem side_by_type_witness:
  "parameters (JObj [(''side'', JNum 0)]) = Inr (no_filter\<lparr>side := Some 0\<rparr>) \<and>
   side (no_filter\<lparr>side := Some 0\<rparr>) = Some 0 \<and>
   conditions (build_conditions (\<lambda>d. None) (no_filter\<lparr>side := Some 0\<rparr>)) ! 0 = ''side = $1'' \<and>
   values_list (build_conditions (\<lambda>d. None) (no_filter\<lparr>side := Some 0\<rparr>)) ! 0 = VNum 0 \<and>
   side (usdt_ngn_filter\<lparr>side := Some 1\<rparr>) = Some 1 \<and>
   conditions (build_conditions (\<lambda>d. None) (usdt_ngn_filter\<lparr>side := Some 1\<rparr>)) ! 2 = ''side = $3'' \<and>
   values_list (build_conditions (\<lambda>d. None) (usdt_ngn_filter\<lparr>side := Some 1\<rparr>)) ! 2 = VNum 1"
proof -
  have zero: "side (no_filter\<lparr>side := Some 0\<rparr>) = Some 0"
    and one: "side (usdt_ngn_filter\<lparr>side := Some 1\<rparr>) = Some 1"
    by simp_all
  have k0: "length (filter (\<lambda>x. nonempty x \<noteq> None)
      [fromCurrency (no_filter\<lparr>side := Some 0\<rparr>), toCurrency (no_filter\<lparr>side := Some 0\<rparr>)]) = 0"
    and k2: "length (filter (\<lambda>x. nonempty x \<noteq> None)
      [fromCurrency (usdt_ngn_filter\<lparr>side := Some 1\<rparr>), toCurrency (usdt_ngn_filter\<lparr>side := Some 1\<rparr>)]) = 2"
    by (simp_all add: nonempty_def)
  have d: "show_nat (Suc 0) = ''1''" "show_nat 3 = ''3''"
    by (simp_all add: show_nat_digit digit_char_def)
  have accepted: "parameters (JObj [(''side'', JNum 0)]) = Inr (no_filter\<lparr>side := Some 0\<rparr>)"
    by (simp add: schema_defs)
  from side_by_type [OF zero, of "\<lambda>d. None"] side_by_type [OF one, of "\<lambda>d. None"]
  have "conditions (build_conditions (\<lambda>d. None) (no_filter\<lparr>side := Some 0\<rparr>)) ! 0 = ''side = $1'' \<and>
   values_list (build_conditions (\<lambda>d. None) (no_filter\<lparr>side := Some 0\<rparr>)) ! 0 = VNum 0 \<and>
   conditions (build_conditions (\<lambda>d. None) (usdt_ngn_filter\<lparr>side := Some 1\<rparr>)) ! 2 = ''side = $3'' \<and>
   values_list (build_conditions (\<lambda>d. None) (usdt_ngn_filter\<lparr>side := Some 1\<rparr>)) ! 2 = VNum 1"
    unfolding k0 k2 Let_def by (simp add: d)
  with accepted zero one show ?thesis by blast
qed

text \<open>
  C8: the predicates are those of the filters that take part, in the order
  \<^verbatim>\<open>fromCurrency\<close>, \<^verbatim>\<open>toCurrency\<close>, \<^verbatim>\<open>side\<close>, \<^verbatim>\<open>startDate\<close>, \<^verbatim>\<open>endDate\<close>, with placeholders numbered
  consecutively from \<^verbatim>\<open>$1\<close>; the values are bound in the same order, a date string as the
  \<^verbatim>\<open>Date\<close> made from it, \<^verbatim>\<open>startDate\<close> under \<^verbatim>\<open>created_at >=\<close> and \<^verbatim>\<open>endDate\<close> under
  \<^verbatim>\<open>created_at <=\<close>; the predicates are joined with \<^verbatim>\<open>AND\<close> after \<^verbatim>\<open>WHERE\<close>, and the clause is
  the empty text when there is no predicate. The call with all five filters shows the
  numbering.
\<close>

theorem predicates_in_fixed_order:
  "conditions (build_conditions nd a) = numbered 1 (map fst (selected nd a)) \<and>
   values_list (build_conditions nd a) = map snd (selected nd a) \<and>
   paramCount (build_conditions nd a) = length (selected nd a) + 1 \<and>
   whereClause (conditions (build_conditions nd a)) =
     (if selected nd a = [] then []
      else ''WHERE '' @ join '' AND '' (numbered 1 (map fst (selected nd a)))) \<and>
   whereClause (conditions (build_conditions nd five_filter)) =
     ''WHERE from_currency_id = $1 AND to_currency_id = $2 AND side = $3 AND created_at >= $4 AND created_at <= $5'' \<and>
   values_list (build_conditions nd five_filter) =
     [VStr ''USDT'', VStr ''NGN'', VNum 1,
      VDate (nd ''2024-01-01T00:00:00Z''), VDate (nd ''2024-02-01T00:00:00Z'')]"
proof -
  have wc: "whereClause (conditions (build_conditions nd a)) =
     (if selected nd a = [] then []
      else ''WHERE '' @ join '' AND '' (numbered 1 (map fst (selected nd a))))"
    by (cases "selected nd a") (simp_all add: build_conditions_selected whereClause_def)
  have ex1: "whereClause (conditions (build_conditions nd five_filter)) =
     ''WHERE from_currency_id = $1 AND to_currency_id = $2 AND side = $3 AND created_at >= $4 AND created_at <= $5''"
    by (simp add: build_defs text_defs)
  have ex2: "values_list (build_conditions nd five_filter) =
     [VStr ''USDT'', VStr ''NGN'', VNum 1,
      VDate (nd ''2024-01-01T00:00:00Z''), VDate (nd ''2024-02-01T00:00:00Z'')]"
    by (simp add: build_defs)
  from build_conditions_selected [of nd a] wc ex1 ex2 show ?thesis by blast
qed

text \<open>
  C9: the empty string for \<^verbatim>\<open>fromCurrency\<close> or \<^verbatim>\<open>toCurrency\<close> passes the schema and then
  counts as absent: conditions, statement text and values are those of the call without the
  field, and no statement ever binds the empty string as a currency code.
\<close>

theorem empty_currency_as_omitted:
  "parameters (JObj [(''fromCurrency'', JStr []), (''toCurrency'', JStr [])]) =
     Inr (no_filter\<lparr>fromCurrency := Some [], toCurrency := Some []\<rparr>) \<and>
   build_conditions nd (a\<lparr>fromCurrency := Some []\<rparr>) = build_conditions nd (a\<lparr>fromCurrency := None\<rparr>) \<and>
   build_conditions nd (a\<lparr>toCurrency := Some []\<rparr>) = build_conditions nd (a\<lparr>toCurrency := None\<rparr>) \<and>
   query nd (a\<lparr>fromCurrency := Some []\<rparr>) = query nd (a\<lparr>fromCurrency := None\<rparr>) \<and>
   query nd (a\<lparr>toCurrency := Some []\<rparr>) = query nd (a\<lparr>toCurrency := None\<rparr>) \<and>
   query_values nd (a\<lparr>fromCurrency := Some []\<rparr>) l = query_values nd (a\<lparr>fromCurrency := None\<rparr>) l \<and>
   query_values nd (a\<lparr>toCurrency := Some []\<rparr>) l = query_values nd (a\<lparr>toCurrency := None\<rparr>) l \<and>
   VStr [] \<notin> set (values_list (build_conditions nd a))"
proof -
  have 1: "parameters (JObj [(''fromCurrency'', JStr []), (''toCurrency'', JStr [])]) =
     Inr (no_filter\<lparr>fromCurrency := Some [], toCurrency := Some []\<rparr>)"
    by (simp add: schema_defs)
  have 2: "build_conditions nd (a\<lparr>fromCurrency := Some []\<rparr>) = build_conditions nd (a\<lparr>fromCurrency := None\<rparr>)"
    by (simp add: build_conditions_def)
  have 3: "build_conditions nd (a\<lparr>toCurrency := Some []\<rparr>) = build_conditions nd (a\<lparr>toCurrency := None\<rparr>)"
    by (simp add: build_conditions_def)
  have 4: "VStr [] \<notin> set (values_list (build_conditions nd a))"
    using no_empty_string_selected [of nd a] by (simp add: build_conditions_selected)
  from 1 2 3 4 show ?thesis
    by (simp add: query_def query_values_def)
qed

subsection \<open>Ordering\<close>

text \<open>
  C7: when \<^verbatim>\<open>orderBy\<close> is supplied the clause is \<^verbatim>\<open>ORDER BY\<close>, the column name as it was
  given, and \<^verbatim>\<open>ASC\<close> or \<^verbatim>\<open>DESC\<close> for \<^verbatim>\<open>ascending\<close> true or false; the clause stands in the
  statement text, and the bound values are the same as without \<^verbatim>\<open>orderBy\<close>, so the column
  is not a parameter.
\<close>

theorem orderBy_interpolated:
  assumes "orderBy a = Some ob"
  shows "orderByClause (orderBy a) =
           ''ORDER BY '' @ column ob @ '' '' @ (if ascending ob then ''ASC'' else ''DESC'') \<and>
         sublist (''ORDER BY '' @ column ob @ '' '' @ (if ascending ob then ''ASC'' else ''DESC''))
           (query nd a) \<and>
         query_values nd a l = query_values nd (a\<lparr>orderBy := None\<rparr>) l"
proof -
  have clause: "orderByClause (orderBy a) =
      ''ORDER BY '' @ column ob @ '' '' @ (if ascending ob then ''ASC'' else ''DESC'')"
    using assms by (simp add: orderByClause_def)
  have "sublist (orderByClause (orderBy a)) (query nd a)"
    by (rule sublist_orderByClause)
  then have inside: "sublist (''ORDER BY '' @ column ob @ '' '' @
      (if ascending ob then ''ASC'' else ''DESC'')) (query nd a)"
    unfolding clause .
  have "query_values nd a l = query_values nd (a\<lparr>orderBy := None\<rparr>) l"
    by (simp add: query_values_def)
  with clause inside show ?thesis by blast
qed

theorem orderBy_interpolated_witness:
  "orderBy (no_filter\<lparr>orderBy := Some \<lparr>column = ''rate'', ascending = True\<rparr>\<rparr>) =
     Some \<lparr>column = ''rate'', ascending = True\<rparr> \<and>
   orderByClause (orderBy (no_filter\<lparr>orderBy := Some \<lparr>column = ''rate'', ascending = True\<rparr>\<rparr>)) =
     ''ORDER BY rate ASC'' \<and>
   sublist ''ORDER BY rate ASC''
     (query (\<lambda>d. None) (no_filter\<lparr>orderBy := Some \<lparr>column = ''rate'', ascending = True\<rparr>\<rparr>))"
  using orderBy_interpolated
    [of "no_filter\<lparr>orderBy := Some \<lparr>column = ''rate'', ascending = True\<rparr>\<rparr>"
        "\<lparr>column = ''rate'', ascending = True\<rparr>" "\<lambda>d. None"]
  by simp

subsection \<open>Validation\<close>

text \<open>
  C3, as stated, fails: \<^verbatim>\<open>{ side: 2 }\<close> passes the schema, whose \<^verbatim>\<open>side\<close> is \<^verbatim>\<open>z.number()\<close>, and the
  statement with \<^verbatim>\<open>side = $1\<close> bound to 2 reaches the database; \<^verbatim>\<open>{ verbose: true }\<close>, with a
  key the shape does not declare, passes as the empty object does.
\<close>

theorem side_two_counterexample:
  "parameters (JObj [(''side'', JNum 2)]) = Inr (no_filter\<lparr>side := Some 2\<rparr>) \<and>
   call_tool (connected_env (\<lambda>d. None) (Inr [''row''] :: string + string list))
       (JObj [(''side'', JNum 2)]) =
     Inr ([ConsoleLog (no_filter\<lparr>side := Some 2, limit := Some 100\<rparr>), PoolConnect,
           ClientQuery
             (nl @ ''        SELECT * FROM exchange_rates '' @
              nl @ ''        WHERE side = $1 '' @
              nl @ ''        ORDER BY created_at DESC'' @
              nl @ ''        LIMIT $2'' @
              nl @ ''      '')
             [VNum 2, VNum 100],
           ClientRelease], Inr [''row'']) \<and>
   parameters (JObj [(''verbose'', JBool True)]) = Inr no_filter"
  by (simp add: schema_defs call_tool_def execute_def build_defs text_defs)

text \<open>
  C3, amended: a call whose argument is not an object, or in which a declared field has a
  value of another type than the declared one, ends in a validation error and nothing of
  \<^verbatim>\<open>execute\<close> runs (no log line, no connection, no query); every other call passes
  validation and runs \<^verbatim>\<open>execute\<close> on the parsed value. A key that the shape does not
  declare has no effect on the result of validation, and \<^verbatim>\<open>side\<close> is checked for being a
  number only: an accepted object stays accepted with any number as its \<^verbatim>\<open>side\<close>.
\<close>

theorem validation_by_declared_types:
  "(\<not> well_typed input \<longrightarrow> (\<exists>issues. call_tool env input = Inl issues)) \<and>
   (well_typed input \<longrightarrow>
      (\<exists>a. parameters input = Inr a \<and> call_tool env input = Inr (execute env a))) \<and>
   (k \<notin> set declared_keys \<longrightarrow> parameters (JObj ((k, v) # kvs)) = parameters (JObj kvs)) \<and>
   (parameters (JObj kvs) = Inr a' \<longrightarrow>
      parameters (JObj ((''side'', JNum n) # kvs)) = Inr (a'\<lparr>side := Some n\<rparr>))"
proof -
  have rejected: "\<exists>issues. call_tool env input = Inl issues" if "\<not> well_typed input"
  proof -
    from that have "isl (parameters input)"
      by (simp add: isl_parameters)
    then obtain issues where "parameters input = Inl issues"
      by (cases "parameters input") simp_all
    then have "call_tool env input = Inl issues"
      by (simp add: call_tool_def)
    then show ?thesis ..
  qed
  have accepted: "\<exists>a. parameters input = Inr a \<and> call_tool env input = Inr (execute env a)"
    if "well_typed input"
  proof -
    from that have "\<not> isl (parameters input)"
      by (simp add: isl_parameters)
    then obtain a where "parameters input = Inr a"
      by (cases "parameters input") simp_all
    then show ?thesis
      by (simp add: call_tool_def)
  qed
  from rejected accepted parameters_undeclared_key [of k v kvs] parameters_put_side [of kvs a' n]
  show ?thesis by blast
qed

theorem validation_by_declared_types_witness:
  "\<not> well_typed (JObj [(''side'', JStr ''0'')]) \<and>
   call_tool (connected_env (\<lambda>d. None) (Inr [] :: string + string list))
     (JObj [(''side'', JStr ''0'')]) = Inl [[''side'']] \<and>
   well_typed (JObj [(''side'', JNum 2), (''verbose'', JBool True)]) \<and>
   call_tool (connected_env (\<lambda>d. None) (Inr [] :: string + string list))
     (JObj [(''side'', JNum 2), (''verbose'', JBool True)]) =
     Inr (execute (connected_env (\<lambda>d. None) (Inr [])) (no_filter\<lparr>side := Some 2\<rparr>)) \<and>
   ''verbose'' \<notin> set declared_keys \<and>
   parameters (JObj [(''verbose'', JBool True)]) = parameters (JObj []) \<and>
   parameters (JObj []) = Inr no_filter \<and>
   parameters (JObj [(''side'', JNum 2)]) = Inr (no_filter\<lparr>side := Some 2\<rparr>)"
proof -
  let ?env = "connected_env (\<lambda>d. None) (Inr [] :: string + string list)"
  let ?bad = "JObj [(''side'', JStr ''0'')]"
  let ?good = "JObj [(''side'', JNum 2), (''verbose'', JBool True)]"
  have bad: "\<not> well_typed ?bad"
    by (simp add: well_typed_def optional_of_def is_number_def)
  have good: "well_typed ?good"
    by (simp add: well_typed_def optional_of_def is_number_def)
  have key: "''verbose'' \<notin> set declared_keys"
    by (simp add: declared_keys_def)
  have empty: "parameters (JObj []) = Inr no_filter"
    by (simp add: schema_defs)
  have parsed: "parameters ?good = Inr (no_filter\<lparr>side := Some 2\<rparr>)"
    by (simp add: schema_defs)
  have issues: "parameters ?bad = Inl [[''side'']]"
    by (simp add: schema_defs)
  note thm1 = validation_by_declared_types [of ?bad ?env "''verbose''" "JBool True" "[]" no_filter 2]
  note thm2 = validation_by_declared_types [of ?good ?env "''verbose''" "JBool True" "[]" no_filter 2]
  from thm1 bad have 1: "call_tool ?env ?bad = Inl [[''side'']]"
    by (auto simp add: call_tool_def issues)
  from thm2 good parsed have 2: "call_tool ?env ?good = Inr (execute ?env (no_filter\<lparr>side := Some 2\<rparr>))"
    by auto
  from thm1 key have 3: "parameters (JObj [(''verbose'', JBool True)]) = parameters (JObj [])"
    by blast
  from thm1 empty have 4: "parameters (JObj [(''side'', JNum 2)]) = Inr (no_filter\<lparr>side := Some 2\<rparr>)"
    by blast
  from bad 1 good 2 key 3 empty 4 show ?thesis by blast
qed

text \<open>
  C10: on an object that the schema accepts, any string that is not empty may stand as
  \<^verbatim>\<open>startDate\<close> or \<^verbatim>\<open>endDate\<close> and the call still passes validation; the \<^verbatim>\<open>Date\<close> made from the
  string, the Invalid Date included, is among the bound values, and once a connection is
  there the query is sent with it and the call ends as the database answers. In the witness
  no string parses, and the database's error is the outcome.
\<close>

theorem date_strings_unchecked:
  assumes "parameters (JObj kvs) = Inr a" and "s \<noteq> []"
  shows "call_tool env (JObj ((''startDate'', JStr s) # kvs)) =
           Inr (execute env (a\<lparr>startDate := Some s\<rparr>)) \<and>
         call_tool env (JObj ((''endDate'', JStr s) # kvs)) =
           Inr (execute env (a\<lparr>endDate := Some s\<rparr>)) \<and>
         VDate (nd s) \<in> set (query_values nd (a\<lparr>startDate := Some s\<rparr>) l) \<and>
         VDate (nd s) \<in> set (query_values nd (a\<lparr>endDate := Some s\<rparr>) l) \<and>
         (poolConnect env = None \<longrightarrow>
            (\<exists>q vs. ClientQuery q vs \<in> set (fst (execute env (a\<lparr>startDate := Some s\<rparr>))) \<and>
               VDate (newDate env s) \<in> set vs \<and>
               snd (execute env (a\<lparr>startDate := Some s\<rparr>)) = clientQuery env q vs) \<and>
            (\<exists>q vs. ClientQuery q vs \<in> set (fst (execute env (a\<lparr>endDate := Some s\<rparr>))) \<and>
               VDate (newDate env s) \<in> set vs \<and>
               snd (execute env (a\<lparr>endDate := Some s\<rparr>)) = clientQuery env q vs))"
proof -
  have start_bound: "VDate (nd s) \<in> set (query_values nd (a\<lparr>startDate := Some s\<rparr>) l)" for nd l
    using assms(2)
    by (simp add: query_values_def build_conditions_selected selected_def entry_def nonempty_def)
  have end_bound: "VDate (nd s) \<in> set (query_values nd (a\<lparr>endDate := Some s\<rparr>) l)" for nd l
    using assms(2)
    by (simp add: query_values_def build_conditions_selected selected_def entry_def nonempty_def)
  have sent: "\<exists>q vs. ClientQuery q vs \<in> set (fst (execute env b)) \<and>
               VDate (newDate env s) \<in> set vs \<and> snd (execute env b) = clientQuery env q vs"
    if "poolConnect env = None"
      and "VDate (newDate env s) \<in> set (query_values (newDate env) b (default_limit b))" for b
  proof (intro exI conjI)
    show "ClientQuery (query (newDate env) b) (query_values (newDate env) b (default_limit b))
        \<in> set (fst (execute env b))"
      by (simp add: execute_connected [OF that(1)])
    show "VDate (newDate env s) \<in> set (query_values (newDate env) b (default_limit b))"
      by (rule that(2))
    show "snd (execute env b) =
        clientQuery env (query (newDate env) b) (query_values (newDate env) b (default_limit b))"
      by (rule execute_connected [OF that(1)])
  qed
  have "call_tool env (JObj ((''startDate'', JStr s) # kvs)) = Inr (execute env (a\<lparr>startDate := Some s\<rparr>))"
    "call_tool env (JObj ((''endDate'', JStr s) # kvs)) = Inr (execute env (a\<lparr>endDate := Some s\<rparr>))"
    by (simp_all add: call_tool_def parameters_put_startDate [OF assms(1)]
          parameters_put_endDate [OF assms(1)])
  with start_bound end_bound sent show ?thesis
    by blast
qed

theorem date_strings_unchecked_witness:
  "parameters (JObj []) = Inr no_filter \<and> ''next tuesday-ish'' \<noteq> [] \<and>
   call_tool (connected_env (\<lambda>d. None) (Inl ''invalid input syntax for type timestamp'' :: string + string list))
       (JObj [(''startDate'', JStr ''next tuesday-ish'')]) =
     Inr (execute (connected_env (\<lambda>d. None) (Inl ''invalid input syntax for type timestamp''))
            (no_filter\<lparr>startDate := Some ''next tuesday-ish''\<rparr>)) \<and>
   VDate None \<in> set (query_values (\<lambda>d. None) (no_filter\<lparr>startDate := Some ''next tuesday-ish''\<rparr>) 100) \<and>
   VDate None \<in> set (query_values (\<lambda>d. None) (no_filter\<lparr>endDate := Some ''next tuesday-ish''\<rparr>) 100) \<and>
   snd (execute (connected_env (\<lambda>d. None) (Inl ''invalid input syntax for type timestamp'' :: string + string list))
            (no_filter\<lparr>startDate := Some ''next tuesday-ish''\<rparr>)) =
     Inl ''invalid input syntax for type timestamp''"
proof -
  let ?env = "connected_env (\<lambda>d. None) (Inl ''invalid input syntax for type timestamp'' :: string + string list)"
  have empty: "parameters (JObj []) = Inr no_filter"
    by (simp add: schema_defs)
  have nonempty: "''next tuesday-ish'' \<noteq> []"
    by simp
  from date_strings_unchecked [OF empty nonempty, of ?env "\<lambda>d. None" 100] empty
  show ?thesis
    by auto
qed

subsection \<open>Errors and the connection\<close>

text \<open>
  C4: with a connection acquired, the outcome of \<^verbatim>\<open>execute\<close> is the answer of the one query
  it sends: the rows as they are, or the error as it was thrown. The error is logged once
  (and nothing is logged as an error on success), the query is sent once, and on both
  paths the connection is released once, as the last thing done.
\<close>

theorem query_error_rethrown_released_once:
  assumes "poolConnect env = None"
  shows "(let q = query (newDate env) a;
              vs = query_values (newDate env) a (default_limit a);
              answer = clientQuery env q vs;
              trace = fst (execute env a)
          in snd (execute env a) = answer \<and>
             count_list trace ClientRelease = 1 \<and>
             last trace = ClientRelease \<and>
             filter is_query trace = [ClientQuery q vs] \<and>
             filter is_error_log trace =
               (case answer of Inl e \<Rightarrow> [ConsoleError e] | Inr rows \<Rightarrow> []))"
  unfolding Let_def execute_connected [OF assms]
  by (simp split: sum.split)

theorem query_error_rethrown_released_once_witness:
  "poolConnect (connected_env (\<lambda>d. None) (Inl ''connection terminated'' :: string + string list)) = None \<and>
   snd (execute (connected_env (\<lambda>d. None) (Inl ''connection terminated'' :: string + string list))
          usdt_ngn_filter) = Inl ''connection terminated'' \<and>
   count_list (fst (execute (connected_env (\<lambda>d. None) (Inl ''connection terminated'' :: string + string list))
          usdt_ngn_filter)) ClientRelease = 1 \<and>
   last (fst (execute (connected_env (\<lambda>d. None) (Inl ''connection terminated'' :: string + string list))
          usdt_ngn_filter)) = ClientRelease \<and>
   filter is_error_log (fst (execute (connected_env (\<lambda>d. None) (Inl ''connection terminated'' :: string + string list))
          usdt_ngn_filter)) = [ConsoleError ''connection terminated''] \<and>
   snd (execute (connected_env (\<lambda>d. None) (Inr [''row 1'', ''row 2''] :: string + string list))
          usdt_ngn_filter) = Inr [''row 1'', ''row 2''] \<and>
   count_list (fst (execute (connected_env (\<lambda>d. None) (Inr [''row 1'', ''row 2''] :: string + string list))
          usdt_ngn_filter)) ClientRelease = 1 \<and>
   filter is_error_log (fst (execute (connected_env (\<lambda>d. None) (Inr [''row 1'', ''row 2''] :: string + string list))
          usdt_ngn_filter)) = []"
proof -
  let ?failing = "connected_env (\<lambda>d. None) (Inl ''connection terminated'' :: string + string list)"
  let ?answering = "connected_env (\<lambda>d. None) (Inr [''row 1'', ''row 2''] :: string + string list)"
  have connected: "poolConnect ?failing = None" "poolConnect ?answering = None"
    by simp_all
  from query_error_rethrown_released_once [OF connected(1), of usdt_ngn_filter]
       query_error_rethrown_released_once [OF connected(2), of usdt_ngn_filter]
  show ?thesis
    unfolding Let_def by simp
qed

end
